theory Spec2Isabelle
  imports Complex_Main
begin

section \<open>Python strings\<close>

text \<open>
  A Python \<open>str\<close> is modelled as a \<open>string\<close>, every \<open>char\<close> standing for one code
  point below 256. \<open>isspace\<close> lists the code points below 256 that \<open>str.strip()\<close>
  removes: U+0009..U+000D, U+001C..U+0020, U+0085 and U+00A0.
\<close>

definition isspace :: "char \<Rightarrow> bool" where
  "isspace c =
     (let n = (of_char c :: nat)
      in (9 \<le> n \<and> n \<le> 13) \<or> (28 \<le> n \<and> n \<le> 32) \<or> n = 133 \<or> n = 160)"

definition lstrip :: "string \<Rightarrow> string" where
  "lstrip s = dropWhile isspace s"

definition rstrip :: "string \<Rightarrow> string" where
  "rstrip s = rev (dropWhile isspace (rev s))"

definition strip :: "string \<Rightarrow> string" where
  "strip s = rstrip (lstrip s)"

definition startswith :: "string \<Rightarrow> string \<Rightarrow> bool" where
  "startswith s p = (take (length p) s = p)"

definition endswith :: "string \<Rightarrow> string \<Rightarrow> bool" where
  "endswith s p = (length p \<le> length s \<and> drop (length s - length p) s = p)"

text \<open>\<open>s.count(c)\<close> for a one-character \<open>c\<close>.\<close>

definition count_char :: "string \<Rightarrow> char \<Rightarrow> nat" where
  "count_char s c = length (filter (\<lambda>x. x = c) s)"

text \<open>\<open>p in s\<close> for two strings: \<open>p\<close> occurs in \<open>s\<close> as a contiguous run.\<close>

fun contains :: "string \<Rightarrow> string \<Rightarrow> bool" where
  "contains [] p = (p = [])"
| "contains (c # s) p = (startswith (c # s) p \<or> contains s p)"

section \<open>Repair of the generated text (\<open>llm_service.py\<close>)\<close>

text \<open>
  Lines 107 to 112 of \<open>LLMService.generate_insights\<close>: when the text does not end with
  a closing brace and has more opening than closing braces, the deficit is appended.
\<close>

definition fix_truncation :: "string \<Rightarrow> string" where
  "fix_truncation response_text =
     (if \<not> endswith response_text ''}'' then
        (let open_braces = count_char response_text CHR ''{'';
             close_braces = count_char response_text CHR ''}''
         in if open_braces > close_braces
            then response_text @ replicate (open_braces - close_braces) CHR ''}''
            else response_text)
      else response_text)"

text \<open>\<open>LLMService._clean_json_response\<close>.\<close>

definition clean_json_response :: "string \<Rightarrow> string" where
  "clean_json_response text0 =
     (let text1 = strip text0;
          text2 = (if startswith text1 ''```json'' then drop 7 text1
                   else if startswith text1 ''```'' then drop 3 text1
                   else text1);
          text3 = (if endswith text2 ''```'' then take (length text2 - 3) text2
                   else text2)
      in strip text3)"

text \<open>
  The text handed to \<open>json.loads\<close> at line 116, from the raw text of the generation
  service: lines 103, 107 to 112 and 114, in the order of the source.
\<close>

definition repaired_text :: "string \<Rightarrow> string" where
  "repaired_text raw = clean_json_response (fix_truncation (strip raw))"

text \<open>
  The order of the specification, for comparison: trim, strip the code fences, then the
  truncation heuristic.
\<close>

definition spec_repaired_text :: "string \<Rightarrow> string" where
  "spec_repaired_text raw = fix_truncation (clean_json_response (strip raw))"

section \<open>Python values\<close>

text \<open>
  A Python \<open>float\<close> is a double: a finite value, an infinity or a NaN. Only comparisons
  are made on floats here, and a comparison of two finite doubles is the comparison of
  the numbers they stand for, so the finite values are taken as reals. Every comparison
  with a NaN is false.
\<close>

datatype pyfloat = Fin real | PosInf | NegInf | NaN

fun float_lt :: "pyfloat \<Rightarrow> pyfloat \<Rightarrow> bool" where
  "float_lt NaN y = False"
| "float_lt x NaN = False"
| "float_lt (Fin a) (Fin b) = (a < b)"
| "float_lt x NegInf = False"
| "float_lt NegInf y = True"
| "float_lt PosInf y = False"
| "float_lt (Fin a) PosInf = True"

fun float_le :: "pyfloat \<Rightarrow> pyfloat \<Rightarrow> bool" where
  "float_le NaN y = False"
| "float_le x NaN = False"
| "float_le (Fin a) (Fin b) = (a \<le> b)"
| "float_le NegInf y = True"
| "float_le x NegInf = False"
| "float_le x PosInf = True"
| "float_le PosInf (Fin b) = False"

text \<open>
  The builtins \<open>min(a, b)\<close> and \<open>max(a, b)\<close>: the first argument is kept unless the
  second is strictly smaller (strictly greater).
\<close>

definition py_min :: "pyfloat \<Rightarrow> pyfloat \<Rightarrow> pyfloat" where
  "py_min a b = (if float_lt b a then b else a)"

definition py_max :: "pyfloat \<Rightarrow> pyfloat \<Rightarrow> pyfloat" where
  "py_max a b = (if float_lt a b then b else a)"

text \<open>What \<open>json.loads\<close> returns: \<open>None\<close>, a bool, an int, a float, a str, a list or a dict
  (keys in insertion order).\<close>

datatype json =
    JNull
  | JBool bool
  | JInt int
  | JFloat pyfloat
  | JStr string
  | JList "json list"
  | JDict "(string \<times> json) list"

type_synonym dict = "(string \<times> json) list"

text \<open>\<open>key in data\<close>, \<open>data[key]\<close> and \<open>data[key] = value\<close> on a dict: a key that is
  already present keeps its place, a new key goes to the end.\<close>

definition dict_get :: "dict \<Rightarrow> string \<Rightarrow> json option" where
  "dict_get data key = map_of data key"

fun dict_set :: "dict \<Rightarrow> string \<Rightarrow> json \<Rightarrow> dict" where
  "dict_set [] key v = [(key, v)]"
| "dict_set ((k, w) # rest) key v =
     (if k = key then (key, v) # rest else (k, w) # dict_set rest key v)"

text \<open>Truth value of a Python object, as \<open>not x\<close> tests it.\<close>

fun truthy :: "json \<Rightarrow> bool" where
  "truthy JNull = False"
| "truthy (JBool b) = b"
| "truthy (JInt i) = (i \<noteq> 0)"
| "truthy (JFloat x) = (x \<noteq> Fin 0)"
| "truthy (JStr s) = (s \<noteq> [])"
| "truthy (JList xs) = (xs \<noteq> [])"
| "truthy (JDict kvs) = (kvs \<noteq> [])"

datatype py_error = TypeError | ValueError | OverflowError | ValidationError

text \<open>
  The builtin \<open>float(x)\<close>. An int beyond the range of a double raises OverflowError: the
  conversion rounds to nearest, so the first int that overflows is
  \<open>2 ^ 1024 - 2 ^ 970\<close>. Below it the int's own value is returned; the rounding to a
  double is left out, it is monotone and leaves every int of magnitude up to
  \<open>2 ^ 53\<close> as it is, so no comparison with 0.70 or 0.98 depends on it. The conversion
  of a str is the parameter \<open>str_to_float\<close> (\<open>None\<close> where Python raises ValueError).
\<close>

definition int_too_large :: "int \<Rightarrow> bool" where
  "int_too_large i = (\<bar>i\<bar> \<ge> 2 ^ 1024 - 2 ^ 970)"

fun py_float :: "(string \<Rightarrow> pyfloat option) \<Rightarrow> json \<Rightarrow> py_error + pyfloat" where
  "py_float str_to_float (JFloat x) = Inr x"
| "py_float str_to_float (JInt i) =
     (if int_too_large i then Inl OverflowError else Inr (Fin (of_int i)))"
| "py_float str_to_float (JBool b) = Inr (Fin (if b then 1 else 0))"
| "py_float str_to_float (JStr s) =
     (case str_to_float s of None \<Rightarrow> Inl ValueError | Some x \<Rightarrow> Inr x)"
| "py_float str_to_float JNull = Inl TypeError"
| "py_float str_to_float (JList xs) = Inl TypeError"
| "py_float str_to_float (JDict kvs) = Inl TypeError"

section \<open>Backfill of the parsed object (\<open>LLMService._validate_and_fix_response\<close>)\<close>

text \<open>\<open>list_field.replace('_', ' ')\<close>.\<close>

definition replace_underscores :: "string \<Rightarrow> string" where
  "replace_underscores s = map (\<lambda>c. if c = CHR ''_'' then CHR '' '' else c) s"

text \<open>Lines 155 and 156.\<close>

definition fix_category :: "dict \<Rightarrow> string \<Rightarrow> dict" where
  "fix_category data category =
     (case dict_get data ''category'' of
        None \<Rightarrow> dict_set data ''category'' (JStr category)
      | Some v \<Rightarrow> if \<not> truthy v then dict_set data ''category'' (JStr category) else data)"

text \<open>Lines 158 to 163. \<open>risk_level not in ["Low", "Medium", "High"]\<close> compares with
  \<open>==\<close>, which only a str equal to one of the three satisfies.\<close>

definition fix_risk_level :: "dict \<Rightarrow> dict" where
  "fix_risk_level data =
     (case dict_get data ''overall_risk_level'' of
        None \<Rightarrow> dict_set data ''overall_risk_level'' (JStr ''Medium'')
      | Some risk_level \<Rightarrow>
          if risk_level \<notin> set [JStr ''Low'', JStr ''Medium'', JStr ''High'']
          then dict_set data ''overall_risk_level'' (JStr ''Medium'')
          else data)"

text \<open>The body of the loop at lines 165 to 167, for one \<open>list_field\<close>.\<close>

definition fix_list_field :: "string \<Rightarrow> dict \<Rightarrow> dict" where
  "fix_list_field list_field data =
     (let placeholder = JList [JStr (''Analysis pending for '' @ replace_underscores list_field)]
      in case dict_get data list_field of
           None \<Rightarrow> dict_set data list_field placeholder
         | Some (JList xs) \<Rightarrow>
             if length xs = 0 then dict_set data list_field placeholder else data
         | Some other \<Rightarrow> dict_set data list_field placeholder)"

text \<open>Lines 169 to 173.\<close>

definition fix_confidence_score :: "(string \<Rightarrow> pyfloat option) \<Rightarrow> dict \<Rightarrow> py_error + dict" where
  "fix_confidence_score str_to_float data =
     (case dict_get data ''confidence_score'' of
        None \<Rightarrow> Inr (dict_set data ''confidence_score'' (JFloat (Fin 0.85)))
      | Some v \<Rightarrow>
          (case py_float str_to_float v of
             Inl e \<Rightarrow> Inl e
           | Inr score \<Rightarrow>
               Inr (dict_set data ''confidence_score''
                      (JFloat (py_max (Fin 0.70) (py_min (Fin 0.98) score))))))"

text \<open>
  The whole function. \<open>json.loads\<close> may return a value that is not a dict; the first
  subscript or item assignment on it raises TypeError.
\<close>

fun validate_and_fix_response ::
  "(string \<Rightarrow> pyfloat option) \<Rightarrow> json \<Rightarrow> string \<Rightarrow> py_error + dict" where
  "validate_and_fix_response str_to_float (JDict data) category =
     fix_confidence_score str_to_float
       (fold fix_list_field
          [''key_risks'', ''negotiation_levers'', ''recommended_actions_next_90_days'']
          (fix_risk_level (fix_category data category)))"
| "validate_and_fix_response str_to_float other category = Inl TypeError"

section \<open>The input and output models (\<open>models.py\<close>)\<close>

datatype RiskLevel = LOW | MEDIUM | HIGH

record SupplierInput =
  supplier_name :: string
  annual_spend_usd :: pyfloat
  on_time_delivery_pct :: pyfloat
  contract_expiry_months :: int
  single_source_dependency :: bool
  region :: string

record InsightsRequest =
  category :: string
  suppliers :: "SupplierInput list"

text \<open>The response model; its \<open>category\<close> field is named \<open>response_category\<close> here.\<close>

record InsightsResponse =
  response_category :: string
  overall_risk_level :: RiskLevel
  key_risks :: "string list"
  negotiation_levers :: "string list"
  recommended_actions_next_90_days :: "string list"
  confidence_score :: pyfloat

text \<open>
  The validators of a model return \<open>None\<close> where they raise \<open>ValueError\<close>. A declared
  constraint (\<open>min_length\<close>, \<open>gt\<close>, \<open>ge\<close>, \<open>le\<close>, \<open>min_items\<close>) is checked before the
  validator function of the field runs.
\<close>

definition validate_non_empty_string :: "string \<Rightarrow> string option" where
  "validate_non_empty_string v = (if v = [] \<or> strip v = [] then None else Some (strip v))"

definition validate_category :: "string \<Rightarrow> string option" where
  "validate_category v = (if v = [] \<or> strip v = [] then None else Some (strip v))"

text \<open>A \<open>str\<close> field declared with \<open>min_length=1\<close> and the validator \<open>f\<close>.\<close>

definition str_field :: "(string \<Rightarrow> string option) \<Rightarrow> string \<Rightarrow> string option" where
  "str_field f v = (if length v < 1 then None else f v)"

text \<open>
  Validation of one \<open>SupplierInput\<close>: the names of the fields that fail, or the
  validated value.
\<close>

definition validate_SupplierInput :: "SupplierInput \<Rightarrow> string list + SupplierInput" where
  "validate_SupplierInput s =
     (let name = str_field validate_non_empty_string (supplier_name s);
          reg = str_field validate_non_empty_string (region s);
          errors =
            (if name = None then [''supplier_name''] else []) @
            (if float_lt (Fin 0) (annual_spend_usd s) then [] else [''annual_spend_usd'']) @
            (if float_le (Fin 0) (on_time_delivery_pct s) \<and> float_le (on_time_delivery_pct s) (Fin 100)
             then [] else [''on_time_delivery_pct'']) @
            (if 0 \<le> contract_expiry_months s then [] else [''contract_expiry_months'']) @
            (if reg = None then [''region''] else [])
      in case (name, reg, errors) of
           (Some n, Some r, []) \<Rightarrow> Inr (s\<lparr>supplier_name := n, region := r\<rparr>)
         | _ \<Rightarrow> Inl errors)"

datatype field_loc = InCategory | InSuppliers | InSupplier nat string

fun validate_suppliers :: "nat \<Rightarrow> SupplierInput list \<Rightarrow> field_loc list \<times> SupplierInput list" where
  "validate_suppliers idx [] = ([], [])"
| "validate_suppliers idx (s # rest) =
     (case validate_suppliers (Suc idx) rest of
        (errors, vals) \<Rightarrow>
          (case validate_SupplierInput s of
             Inl names \<Rightarrow> (map (InSupplier idx) names @ errors, vals)
           | Inr v \<Rightarrow> (errors, v # vals)))"

text \<open>Validation of the request body: the places of all errors, or the validated request.\<close>

definition validate_InsightsRequest :: "InsightsRequest \<Rightarrow> field_loc list + InsightsRequest" where
  "validate_InsightsRequest body =
     (case validate_suppliers 0 (suppliers body) of
        (supplier_errors, vals) \<Rightarrow>
          (let cat = str_field validate_category (category body);
               errors =
                 (if cat = None then [InCategory] else []) @
                 (if supplier_errors \<noteq> [] then supplier_errors
                  else if length vals < 1 then [InSuppliers] else [])
           in case (cat, errors) of
                (Some c, []) \<Rightarrow> Inr \<lparr>category = c, suppliers = vals\<rparr>
              | _ \<Rightarrow> Inl errors))"

text \<open>The \<open>RiskLevel\<close> member with a given value.\<close>

definition RiskLevel_of :: "json \<Rightarrow> RiskLevel option" where
  "RiskLevel_of v =
     (if v = JStr ''Low'' then Some LOW
      else if v = JStr ''Medium'' then Some MEDIUM
      else if v = JStr ''High'' then Some HIGH
      else None)"

definition validate_non_empty_lists :: "string list \<Rightarrow> string list option" where
  "validate_non_empty_lists v =
     (if v = [] then None
      else if \<exists>item \<in> set v. item = [] \<or> strip item = [] then None
      else Some (map strip v))"

text \<open>
  A \<open>List[str]\<close> field declared with \<open>min_items=1\<close> and the validator above. How the
  library turns one item into a \<open>str\<close> is the parameter \<open>str_validator\<close>.
\<close>

definition list_field :: "(json \<Rightarrow> string option) \<Rightarrow> json \<Rightarrow> string list option" where
  "list_field str_validator v =
     (case v of
        JList xs \<Rightarrow>
          (case those (map str_validator xs) of
             None \<Rightarrow> None
           | Some items \<Rightarrow> if length items < 1 then None else validate_non_empty_lists items)
      | _ \<Rightarrow> None)"

text \<open>The \<open>float\<close> field declared with \<open>ge=0, le=1\<close>.\<close>

definition score_field :: "(json \<Rightarrow> pyfloat option) \<Rightarrow> json \<Rightarrow> pyfloat option" where
  "score_field float_validator v =
     (case float_validator v of
        None \<Rightarrow> None
      | Some x \<Rightarrow> if float_le (Fin 0) x \<and> float_le x (Fin 1) then Some x else None)"

text \<open>\<open>InsightsResponse(**response_data)\<close>: \<open>None\<close> where the library raises its
  \<open>ValidationError\<close>. All six fields are required.\<close>

definition construct_InsightsResponse ::
  "(json \<Rightarrow> string option) \<Rightarrow> (json \<Rightarrow> pyfloat option) \<Rightarrow> dict \<Rightarrow> InsightsResponse option" where
  "construct_InsightsResponse str_validator float_validator data =
     (case (Option.bind (dict_get data ''category'') str_validator,
            Option.bind (dict_get data ''overall_risk_level'') RiskLevel_of,
            Option.bind (dict_get data ''key_risks'') (list_field str_validator),
            Option.bind (dict_get data ''negotiation_levers'') (list_field str_validator),
            Option.bind (dict_get data ''recommended_actions_next_90_days'') (list_field str_validator),
            Option.bind (dict_get data ''confidence_score'') (score_field float_validator)) of
        (Some c, Some r, Some k, Some n, Some a, Some x) \<Rightarrow>
          Some \<lparr>response_category = c, overall_risk_level = r, key_risks = k,
                negotiation_levers = n, recommended_actions_next_90_days = a,
                confidence_score = x\<rparr>
      | _ \<Rightarrow> None)"

section \<open>The prompts (\<open>llm_service.py\<close>)\<close>

text \<open>The lines of a triple-quoted string, joined by newlines.\<close>

fun join_lines :: "string list \<Rightarrow> string" where
  "join_lines [] = []"
| "join_lines [l] = l"
| "join_lines (l # m # ls) = l @ CHR 10 # join_lines (m # ls)"

definition build_system_prompt :: "string" where
  \<open>build_system_prompt = join_lines
    [''You are a procurement analytics expert specializing in supplier risk assessment and sourcing strategy for manufacturing companies.'',
     '''',
     ''Your task is to analyze supplier data and generate actionable insights for procurement executives.'',
     '''',
     ''CRITICAL REQUIREMENTS:'',
     ''1. You must respond ONLY with valid JSON matching the exact schema provided'',
     ''2. No explanatory text before or after the JSON'',
     ''3. No markdown formatting or code blocks'',
     ''4. All risk assessments must be data-driven and based on the input metrics'',
     ''5. Focus on actionable, executive-level insights suitable for mobile dashboards'',
     '''',
     ''ANALYSIS FRAMEWORK:'',
     ''- Assess concentration risk (single source dependencies, spend distribution)'',
     ''- Evaluate delivery performance and operational risk'',
     ''- Identify contract timing urgencies (expiring within 6 months = high priority)'',
     ''- Consider geographic diversification'',
     ''- Generate concrete, time-bound action items'']\<close>


text \<open>
  The lines of the template of \<open>_build_user_prompt\<close> that follow the supplier data
  (lines 55 to 90 of the source).
\<close>

definition response_instructions :: "string list" where
  \<open>response_instructions =
    ['''',
     ''Generate a JSON response with this EXACT structure:'',
     ''{'',
     ''  "category": "string (the category name)",'',
     ''  "overall_risk_level": "Low OR Medium OR High",'',
     ''  "key_risks": ["risk 1", "risk 2", "risk 3"],'',
     ''  "negotiation_levers": ["lever 1", "lever 2", "lever 3"],'',
     ''  "recommended_actions_next_90_days": ["action 1", "action 2", "action 3"],'',
     ''  "confidence_score": 0.XX'',
     ''}'',
     '''',
     ''SCORING GUIDELINES:'',
     ''- overall_risk_level: "High" if single-source dependency exists OR contracts expiring within 3 months OR delivery performance < 90%'',
     ''- overall_risk_level: "Medium" if moderate concerns (contracts 3-6 months, delivery 90-95%, concentrated spend)'',
     ''- overall_risk_level: "Low" if well-diversified, strong performance, adequate contract runway'',
     ''- key_risks: Must identify 3-5 specific risks based on data (concentration, timing, performance, geographic)'',
     ''- negotiation_levers: Must identify 3-5 specific leverage points (competitive alternatives, volume, contract timing, performance gaps)'',
     ''- recommended_actions_next_90_days: Must provide 3-5 concrete, time-bound actions prioritized by urgency'',
     '''',
     ''Calculate confidence_score based on these factors:'',
     ''- Start with base 0.85 (we have complete, structured data)'',
     ''- Deduct 0.05 if only 1-2 suppliers (limited comparison basis)'',
     ''- Deduct 0.05 if any data appears inconsistent or unclear'',
     ''- Deduct 0.10 if analysis requires significant assumptions'',
     ''- Add 0.05 if there are clear, unambiguous risk signals'',
     '''',
     ''Typical ranges:'',
     ''- 0.90-0.95: Complete data, 3+ suppliers, clear patterns'',
     ''- 0.80-0.89: Good data quality, some minor gaps or ambiguity'',
     ''- 0.70-0.79: Acceptable data, but requires some assumptions'',
     '''',
     ''For this specific dataset with 3 suppliers and complete fields, confidence should be 0.85-0.92.'',
     '''',
     ''IMPORTANT: Ensure your JSON is complete and properly closed. Do not truncate the response.'',
     '''',
     ''Respond with ONLY the JSON object, no other text.'']\<close>

text \<open>
  \<open>_build_user_prompt\<close>: the lines that carry the category and the suppliers, followed
  by the lines above, which are the same for every request.
  \<open>json.dumps([s.dict() for s in request.suppliers], indent=2)\<close> is the parameter
  \<open>json_dumps\<close>.
\<close>

definition build_user_prompt :: "(SupplierInput list \<Rightarrow> string) \<Rightarrow> InsightsRequest \<Rightarrow> string" where
  "build_user_prompt json_dumps request =
     (let suppliers_json = json_dumps (suppliers request)
      in join_lines
           ([''Analyze the following procurement data and generate structured insights.'',
             '''',
             ''CATEGORY: '' @ category request,
             '''',
             ''SUPPLIER DATA:'',
             suppliers_json] @ response_instructions))"

section \<open>The service (\<open>LLMService.generate_insights\<close>)\<close>

text \<open>
  An exception, with its class as far as the \<open>except\<close> clauses tell classes apart, and
  the text \<open>str(e)\<close>.
\<close>

datatype exn = JSONDecodeError string | AttributeError string | OtherError string

text \<open>
  What the code calls but does not define:
  \<^item> \<open>generate_content\<close>: \<open>self.model.generate_content(full_prompt)\<close> followed by
    \<open>response.text\<close>; the text, or the exception either of them raises;
  \<^item> \<open>json_loads\<close>: \<open>json.loads\<close>;
  \<^item> \<open>json_dumps\<close>: the rendering of the suppliers in the prompt;
  \<^item> \<open>str_to_float\<close>: \<open>float\<close> on a str;
  \<^item> \<open>str_validator\<close>, \<open>float_validator\<close>: the conversions the model library applies
    to a value of a \<open>str\<close> and of a \<open>float\<close> field;
  \<^item> \<open>str_of_error\<close>: the text \<open>str(e)\<close> of an error raised on the given data.
\<close>

record env =
  generate_content :: "string \<Rightarrow> exn + string"
  json_loads :: "string \<Rightarrow> exn + json"
  json_dumps :: "SupplierInput list \<Rightarrow> string"
  str_to_float :: "string \<Rightarrow> pyfloat option"
  str_validator :: "json \<Rightarrow> string option"
  float_validator :: "json \<Rightarrow> pyfloat option"
  str_of_error :: "py_error \<Rightarrow> json \<Rightarrow> string"

text \<open>Lines 94 to 97: the prompt sent to the generation service.\<close>

definition full_prompt :: "env \<Rightarrow> InsightsRequest \<Rightarrow> string" where
  "full_prompt e request =
     build_system_prompt @ [CHR 10, CHR 10] @ build_user_prompt (json_dumps e) request"

text \<open>Lines 103 to 120, from the text of the response to the constructed model.\<close>

definition repair_response :: "env \<Rightarrow> InsightsRequest \<Rightarrow> string \<Rightarrow> exn + InsightsResponse" where
  "repair_response e request raw =
     (case json_loads e (repaired_text raw) of
        Inl ex \<Rightarrow> Inl ex
      | Inr response_data \<Rightarrow>
          (case validate_and_fix_response (str_to_float e) response_data (category request) of
             Inl err \<Rightarrow> Inl (OtherError (str_of_error e err response_data))
           | Inr fixed \<Rightarrow>
               (case construct_InsightsResponse (str_validator e) (float_validator e) fixed of
                  None \<Rightarrow> Inl (OtherError (str_of_error e ValidationError (JDict fixed)))
                | Some insights_response \<Rightarrow> Inr insights_response)))"

text \<open>\<open>str(e)\<close> of an exception.\<close>

fun str_of_exn :: "exn \<Rightarrow> string" where
  "str_of_exn (JSONDecodeError m) = m"
| "str_of_exn (AttributeError m) = m"
| "str_of_exn (OtherError m) = m"

text \<open>The three \<open>except\<close> clauses, lines 124 to 139: the message of the \<open>Exception\<close>
  raised in place of the one caught.\<close>

fun reraised :: "exn \<Rightarrow> string" where
  "reraised (JSONDecodeError m) = ''Failed to parse LLM response as JSON: '' @ m"
| "reraised (AttributeError m) = ''Error accessing response attributes: '' @ m"
| "reraised (OtherError m) = ''Error generating insights: '' @ m"

text \<open>
  The method: the message of the exception it raises, or the response. The second
  component counts the calls of the generation service.
\<close>

definition LLMService_generate_insights ::
  "env \<Rightarrow> InsightsRequest \<Rightarrow> nat \<Rightarrow> (string + InsightsResponse) \<times> nat" where
  "LLMService_generate_insights e request calls =
     (case generate_content e (full_prompt e request) of
        Inl ex \<Rightarrow> (Inl (reraised ex), calls + 1)
      | Inr raw \<Rightarrow>
          (case repair_response e request raw of
             Inl ex \<Rightarrow> (Inl (reraised ex), calls + 1)
           | Inr insights_response \<Rightarrow> (Inr insights_response, calls + 1)))"

section \<open>The request handler (\<open>main.py\<close>)\<close>

datatype http_result =
    OK InsightsResponse
  | HTTPException nat string
  | JSONResponse nat "field_loc list"

fun status_code :: "http_result \<Rightarrow> nat" where
  "status_code (OK insights) = 200"
| "status_code (HTTPException code detail) = code"
| "status_code (JSONResponse code errors) = code"

text \<open>\<open>str(idx)\<close> for an index.\<close>

fun str_nat :: "nat \<Rightarrow> string" where
  "str_nat n =
     (if n < 10 then [char_of (48 + n)] else str_nat (n div 10) @ [char_of (48 + n mod 10)])"

text \<open>The loop at lines 69 to 92: the first exception raised, if any.\<close>

fun check_suppliers :: "nat \<Rightarrow> SupplierInput list \<Rightarrow> http_result option" where
  "check_suppliers idx [] = None"
| "check_suppliers idx (supplier # rest) =
     (if supplier_name supplier = [] \<or> strip (supplier_name supplier) = [] then
        Some (HTTPException 422
          (''Supplier at index '' @ str_nat idx @ '' has an empty or invalid name.''))
      else if float_le (annual_spend_usd supplier) (Fin 0) then
        Some (HTTPException 422
          (''Supplier '' @ [CHR 39] @ supplier_name supplier @ [CHR 39] @
           '' has invalid annual spend (must be > 0).''))
      else if \<not> (float_le (Fin 0) (on_time_delivery_pct supplier) \<and>
                 float_le (on_time_delivery_pct supplier) (Fin 100)) then
        Some (HTTPException 422
          (''Supplier '' @ [CHR 39] @ supplier_name supplier @ [CHR 39] @
           '' has invalid delivery percentage (must be 0-100).''))
      else if contract_expiry_months supplier < 0 then
        Some (HTTPException 422
          (''Supplier '' @ [CHR 39] @ supplier_name supplier @ [CHR 39] @
           '' has invalid contract expiry months (must be >= 0).''))
      else check_suppliers (Suc idx) rest)"

text \<open>Lines 63 to 92: the checks made before the service is called.\<close>

definition manual_checks :: "InsightsRequest \<Rightarrow> http_result option" where
  "manual_checks request =
     (if suppliers request = [] \<or> length (suppliers request) = 0 then
        Some (HTTPException 422
          ''Supplier list cannot be empty. At least one supplier is required.'')
      else check_suppliers 0 (suppliers request))"

text \<open>Lines 112 to 129: the outcome for an exception of the service with text \<open>msg\<close>.\<close>

definition map_exception :: "string \<Rightarrow> http_result" where
  "map_exception msg =
     (if contains msg ''API'' then
        HTTPException 503 ''LLM service is currently unavailable. Please try again later.''
      else if contains msg ''JSON'' then
        HTTPException 500 ''Failed to parse LLM response. Please contact support.''
      else
        HTTPException 500 (''An error occurred while generating insights: '' @ msg))"

text \<open>The handler \<open>generate_insights\<close> of \<open>main.py\<close>, on a validated request.\<close>

definition generate_insights :: "env \<Rightarrow> InsightsRequest \<Rightarrow> nat \<Rightarrow> http_result \<times> nat" where
  "generate_insights e request calls =
     (case manual_checks request of
        Some failure \<Rightarrow> (failure, calls)
      | None \<Rightarrow>
          (case LLMService_generate_insights e request calls of
             (Inr insights, calls') \<Rightarrow> (OK insights, calls')
           | (Inl msg, calls') \<Rightarrow> (map_exception msg, calls')))"

text \<open>
  The route \<open>POST /generate-insights\<close>: the body is validated against \<open>InsightsRequest\<close>
  first; a body that fails never reaches the handler and is answered by
  \<open>validation_exception_handler\<close> with status 422.
\<close>

definition post_generate_insights :: "env \<Rightarrow> InsightsRequest \<Rightarrow> nat \<Rightarrow> http_result \<times> nat" where
  "post_generate_insights e body calls =
     (case validate_InsightsRequest body of
        Inl errors \<Rightarrow> (JSONResponse 422 errors, calls)
      | Inr request \<Rightarrow> generate_insights e request calls)"

section \<open>Auxiliary definitions for the properties\<close>

text \<open>The object as it stands when line 169 is reached: lines 155 to 167 applied.\<close>

definition before_score :: "dict \<Rightarrow> string \<Rightarrow> dict" where
  "before_score data c =
     fold fix_list_field
       [''key_risks'', ''negotiation_levers'', ''recommended_actions_next_90_days'']
       (fix_risk_level (fix_category data c))"

text \<open>
  An environment for the examples: the generation service and the parser answer with
  fixed values, the model library accepts a str for a \<open>str\<close> field and a float for a
  \<open>float\<close> field.
\<close>

definition example_env :: "exn + string \<Rightarrow> exn + json \<Rightarrow> env" where
  "example_env generated parsed =
     \<lparr>generate_content = (\<lambda>prompt. generated),
      json_loads = (\<lambda>text. parsed),
      json_dumps = (\<lambda>ss. ''[]''),
      str_to_float = (\<lambda>s. None),
      str_validator = (\<lambda>v. case v of JStr s \<Rightarrow> Some s | _ \<Rightarrow> None),
      float_validator = (\<lambda>v. case v of JFloat x \<Rightarrow> Some x | _ \<Rightarrow> None),
      str_of_error = (\<lambda>err v. ''error'')\<rparr>"

definition example_request :: InsightsRequest where
  "example_request =
     \<lparr>category = ''Steel'',
      suppliers =
        [\<lparr>supplier_name = ''Acme'', annual_spend_usd = Fin 1000,
          on_time_delivery_pct = Fin 95, contract_expiry_months = 2,
          single_source_dependency = True, region = ''EU''\<rparr>]\<rparr>"

section \<open>Properties of the text repair\<close>

lemma strip_Nil: "strip [] = []"
  by (simp add: strip_def lstrip_def rstrip_def)

lemma strip_fixed:
  assumes "s \<noteq> []" and "\<not> isspace (hd s)" and "\<not> isspace (last s)"
  shows "strip s = s"
proof -
  from assms have l: "lstrip s = s"
    by (cases s) (simp_all add: lstrip_def)
  from assms have "dropWhile isspace (rev s) = rev s"
    by (cases "rev s") (simp_all add: last_rev hd_rev)
  then have "rstrip s = s" by (simp add: rstrip_def)
  with l show ?thesis by (simp add: strip_def)
qed

lemma strip_ends:
  "strip s = [] \<or> (\<not> isspace (hd (strip s)) \<and> \<not> isspace (last (strip s)))"
proof (cases "lstrip s = []")
  case True
  then show ?thesis by (simp add: strip_def rstrip_def)
next
  case False
  define u where "u = lstrip s"
  define d where "d = dropWhile isspace (rev u)"
  from False have u: "u \<noteq> []" by (simp add: u_def)
  then have hu: "\<not> isspace (hd u)"
    unfolding u_def lstrip_def by (rule hd_dropWhile)
  have split: "rev u = takeWhile isspace (rev u) @ d"
    by (simp add: d_def)
  have dne: "d \<noteq> []"
  proof
    assume "d = []"
    then have "\<forall>x \<in> set (rev u). isspace x"
      unfolding d_def by (simp add: dropWhile_eq_Nil_conv)
    with u hu show False by (cases u) auto
  qed
  then have hd_d: "\<not> isspace (hd d)"
    unfolding d_def by (rule hd_dropWhile)
  from split have "u = rev d @ rev (takeWhile isspace (rev u))"
    by (metis rev_append rev_rev_ident)
  with dne have "hd (rev d) = hd u"
    by (metis hd_append2 rev_is_Nil_conv)
  moreover have "last (rev d) = hd d" using dne by (simp add: last_rev)
  moreover have "strip s = rev d" by (simp add: strip_def rstrip_def u_def d_def)
  ultimately show ?thesis using hu hd_d by simp
qed

lemma strip_strip: "strip (strip s) = strip s"
proof (cases "strip s = []")
  case True
  then show ?thesis by (simp add: strip_Nil)
next
  case False
  with strip_ends [of s] show ?thesis by (intro strip_fixed) auto
qed

lemma endswith_brace: "endswith s ''}'' = (s \<noteq> [] \<and> last s = CHR ''}'')"
proof (cases s rule: rev_cases)
  case Nil
  then show ?thesis by (simp add: endswith_def)
next
  case (snoc ys y)
  then show ?thesis by (auto simp: endswith_def)
qed

lemma endswith_last: "endswith s (p @ [c]) \<Longrightarrow> s \<noteq> [] \<and> last s = c"
proof (cases s rule: rev_cases)
  case Nil
  assume "endswith s (p @ [c])"
  with Nil show ?thesis by (simp add: endswith_def)
next
  case (snoc ys y)
  assume e: "endswith s (p @ [c])"
  then have "drop (length s - length (p @ [c])) s = p @ [c]" and "length (p @ [c]) \<le> length s"
    by (simp_all add: endswith_def)
  then have "last (drop (length s - length (p @ [c])) s) = c" by simp
  moreover have "length s - length (p @ [c]) < length s" using snoc by simp
  ultimately have "last s = c" by (simp add: last_drop)
  with snoc show ?thesis by simp
qed

lemma startswith_hd: "startswith s (c # p) \<Longrightarrow> s \<noteq> [] \<and> hd s = c"
  by (cases s) (auto simp: startswith_def)

lemma clean_no_fence:
  assumes "strip t = t" and "\<not> startswith t ''```''" and "\<not> endswith t ''```''"
  shows "clean_json_response t = t"
proof -
  have "\<not> startswith t ''```json''"
  proof
    assume "startswith t ''```json''"
    then have "take 7 t = ''```json''" by (simp add: startswith_def eval_nat_numeral)
    then have "take 3 (take 7 t) = take 3 ''```json''" by (rule arg_cong)
    then have "take 3 t = ''```''" by (simp add: min_def)
    with assms(2) show False by (simp add: startswith_def eval_nat_numeral)
  qed
  then show ?thesis using assms by (simp add: clean_json_response_def Let_def)
qed


lemma fix_truncation_cases:
  "fix_truncation t = t \<or>
   (\<exists>k. k > 0 \<and> fix_truncation t = t @ replicate k (CHR ''}''))"
  by (auto simp: fix_truncation_def Let_def)

lemma fix_truncation_stripped:
  assumes "strip t = t"
  shows "strip (fix_truncation t) = fix_truncation t"
proof -
  consider "fix_truncation t = t"
    | k where "k > 0" and "fix_truncation t = t @ replicate k (CHR ''}'')"
    using fix_truncation_cases by blast
  then show ?thesis
  proof cases
    case 1
    with assms show ?thesis by simp
  next
    case 2
    show ?thesis
    proof (cases "t = []")
      case True
      with 2 have "fix_truncation t = replicate k (CHR ''}'')" by simp
      moreover from 2(1) have "replicate k (CHR ''}'') \<noteq> []" by simp
      moreover from 2(1) have "hd (replicate k (CHR ''}'')) = CHR ''}''" by (cases k) simp_all
      moreover from 2(1) have "last (replicate k (CHR ''}'')) = CHR ''}''" by simp
      ultimately show ?thesis by (simp add: strip_fixed isspace_def)
    next
      case False
      with assms strip_ends [of t] have "\<not> isspace (hd t)" by auto
      with False 2 have "\<not> isspace (hd (fix_truncation t))" by simp
      moreover from 2 have "last (fix_truncation t) = CHR ''}''" by simp
      moreover from False 2 have "fix_truncation t \<noteq> []" by simp
      ultimately show ?thesis by (simp add: strip_fixed isspace_def)
    qed
  qed
qed

lemma fix_truncation_no_fence:
  assumes "\<not> startswith t ''```''" and "\<not> endswith t ''```''"
  shows "\<not> startswith (fix_truncation t) ''```'' \<and> \<not> endswith (fix_truncation t) ''```''"
proof -
  consider "fix_truncation t = t"
    | k where "k > 0" and "fix_truncation t = t @ replicate k (CHR ''}'')"
    using fix_truncation_cases by blast
  then show ?thesis
  proof cases
    case 1
    with assms show ?thesis by simp
  next
    case 2
    from 2(1) obtain j where k: "k = Suc j" by (cases k) auto
    have e: "\<not> endswith (fix_truncation t) ''```''"
    proof
      assume "endswith (fix_truncation t) ''```''"
      then have "endswith (fix_truncation t) (''``'' @ [CHR 0x60])" by simp
      then have "last (fix_truncation t) = CHR 0x60" by (rule endswith_last [THEN conjunct2])
      with 2 show False by simp
    qed
    have s: "\<not> startswith (fix_truncation t) ''```''"
    proof
      assume a: "startswith (fix_truncation t) ''```''"
      show False
      proof (cases t)
        case Nil
        with a 2 k show ?thesis by (simp add: startswith_def)
      next
        case (Cons a1 t1)
        note c1 = this
        show ?thesis
        proof (cases t1)
          case Nil
          with a 2 k c1 show ?thesis by (simp add: startswith_def)
        next
          case (Cons a2 t2)
          note c2 = this
          show ?thesis
          proof (cases t2)
            case Nil
            with a 2 k c1 c2 show ?thesis by (simp add: startswith_def)
          next
            case (Cons a3 t3)
            with a 2 k c1 c2 assms(1) show ?thesis by (simp add: startswith_def)
          qed
        qed
      qed
    qed
    from s e show ?thesis by simp
  qed
qed

lemma repaired_text_no_fence:
  assumes "\<not> startswith (strip raw) ''```''" and "\<not> endswith (strip raw) ''```''"
  shows "repaired_text raw = fix_truncation (strip raw)"
    and "spec_repaired_text raw = fix_truncation (strip raw)"
proof -
  have st: "strip (strip raw) = strip raw" by (rule strip_strip)
  from fix_truncation_no_fence [OF assms] fix_truncation_stripped [OF st]
  show "repaired_text raw = fix_truncation (strip raw)"
    by (simp add: repaired_text_def clean_no_fence)
  from st assms show "spec_repaired_text raw = fix_truncation (strip raw)"
    by (simp add: spec_repaired_text_def clean_no_fence)
qed

lemma count_char_append: "count_char (s @ t) c = count_char s c + count_char t c"
  by (simp add: count_char_def)

lemma count_char_replicate: "count_char (replicate k c) d = (if c = d then k else 0)"
  by (induction k) (simp_all add: count_char_def)

lemma strip_newline: "strip (CHR 10 # s) = strip s"
  by (simp add: strip_def lstrip_def isspace_def)

lemma not_endswith_fence:
  assumes "s \<noteq> []" and "last s = CHR ''}''"
  shows "\<not> endswith s ''```''"
proof
  assume "endswith s ''```''"
  then have "endswith s (''``'' @ [CHR 0x60])" by simp
  then have "last s = CHR 0x60" by (rule endswith_last [THEN conjunct2])
  with assms show False by simp
qed

lemma clean_opening_fence:
  assumes o: "opening \<in> {[], ''```json'' @ [CHR 10], ''```'' @ [CHR 10]}"
    and t: "t \<noteq> []" "hd t = CHR ''{''" "last t = CHR ''}''"
  shows "clean_json_response (opening @ t) = t"
proof -
  from t have st: "strip t = t" by (simp add: strip_fixed isspace_def)
  from t have ne: "\<not> endswith t ''```''" by (simp add: not_endswith_fence)
  from t have ns: "\<not> startswith t ''```''" using startswith_hd [of t "CHR 0x60" "''``''"] by auto
  from o consider "opening = []" | "opening = ''```json'' @ [CHR 10]" | "opening = ''```'' @ [CHR 10]"
    by blast
  then show ?thesis
  proof cases
    case 1
    with st ne ns show ?thesis by (simp add: clean_no_fence)
  next
    case 2
    have s: "strip (opening @ t) = opening @ t"
      using t 2 by (intro strip_fixed) (simp_all add: isspace_def)
    have sw: "startswith (opening @ t) ''```json''"
      using 2 by (simp add: startswith_def)
    have d: "drop 7 (opening @ t) = CHR 10 # t" using 2 by simp
    have e: "\<not> endswith (CHR 10 # t) ''```''" using t by (simp add: not_endswith_fence)
    show ?thesis
      unfolding clean_json_response_def Let_def s
      using sw d e st by (simp add: strip_newline)
  next
    case 3
    have s: "strip (opening @ t) = opening @ t"
      using t 3 by (intro strip_fixed) (simp_all add: isspace_def)
    have sw: "\<not> startswith (opening @ t) ''```json''"
      using 3 by (simp add: startswith_def)
    have sw2: "startswith (opening @ t) ''```''"
      using 3 by (simp add: startswith_def)
    have d: "drop 3 (opening @ t) = CHR 10 # t" using 3 by simp
    have e: "\<not> endswith (CHR 10 # t) ''```''" using t by (simp add: not_endswith_fence)
    show ?thesis
      unfolding clean_json_response_def Let_def s
      using sw sw2 d e st by (simp add: strip_newline)
  qed
qed

text \<open>
  Claim C3. The source evaluates the truncation heuristic (lines 107 to 112) before the
  code fences are stripped (line 114), not after. On a complete fenced answer whose
  string value holds an opening brace, a closing brace is therefore appended after the
  closing fence, the test for the closing fence at line 149 no longer succeeds, and the
  text handed to the parser still carries the fence; with the fences stripped first it
  would be the object text alone. When the parser rejects the text with the fence, the
  service raises its parse failure.
\<close>

theorem closing_fence_left_in_text:
  assumes \<open>generate_content e (full_prompt e request) = Inr ''```json\<newline>{"a": "{"}\<newline>```''\<close>
    and \<open>json_loads e ''{"a": "{"}\<newline>```}'' = Inl (JSONDecodeError m)\<close>
  shows \<open>repaired_text ''```json\<newline>{"a": "{"}\<newline>```'' = ''{"a": "{"}\<newline>```}'' \<and>
     spec_repaired_text ''```json\<newline>{"a": "{"}\<newline>```'' = ''{"a": "{"}'' \<and>
     LLMService_generate_insights e request calls =
       (Inl (''Failed to parse LLM response as JSON: '' @ m), calls + 1)\<close>
proof -
  have r: \<open>repaired_text ''```json\<newline>{"a": "{"}\<newline>```'' = ''{"a": "{"}\<newline>```}''\<close>
    by code_simp
  have s: \<open>spec_repaired_text ''```json\<newline>{"a": "{"}\<newline>```'' = ''{"a": "{"}''\<close>
    by code_simp
  from assms(2) have \<open>repair_response e request ''```json\<newline>{"a": "{"}\<newline>```'' =
      Inl (JSONDecodeError m)\<close>
    unfolding repair_response_def r by simp
  with assms(1) have "LLMService_generate_insights e request calls =
       (Inl (''Failed to parse LLM response as JSON: '' @ m), calls + 1)"
    by (simp add: LLMService_generate_insights_def)
  with r s show ?thesis by simp
qed

theorem closing_fence_left_in_text_witness:
  \<open>LLMService_generate_insights
     (example_env (Inr ''```json\<newline>{"a": "{"}\<newline>```'') (Inl (JSONDecodeError ''Extra data'')))
     example_request 0 =
   (Inl ''Failed to parse LLM response as JSON: Extra data'', 1)\<close>
proof -
  let ?e = \<open>example_env (Inr ''```json\<newline>{"a": "{"}\<newline>```'') (Inl (JSONDecodeError ''Extra data''))\<close>
  have g: \<open>generate_content ?e (full_prompt ?e example_request) = Inr ''```json\<newline>{"a": "{"}\<newline>```''\<close>
    by (simp add: example_env_def)
  have l: \<open>json_loads ?e ''{"a": "{"}\<newline>```}'' = Inl (JSONDecodeError ''Extra data'')\<close>
    by (simp add: example_env_def)
  from closing_fence_left_in_text [OF g l, of 0] show ?thesis by simp
qed

text \<open>
  Claim C4. The heuristic counts braces only. When an object text \<open>s\<close> with as many
  opening as closing braces has lost \<open>k > 0\<close> closing braces at its end and what is
  left, \<open>t\<close>, does not itself end with a closing brace, then on \<open>t\<close>, alone or after
  an opening fence line, the heuristic appends exactly \<open>k\<close> closing braces, the repaired
  text is \<open>s\<close> again, and it parses to what \<open>s\<close> parses to. The text
  \<open>{"a": "b", "c": [1,2\<close> is the case \<open>k = 1\<close>.
\<close>

theorem truncation_round_trip:
  fixes loads :: "string \<Rightarrow> exn + json"
  assumes bal: "count_char s CHR ''{'' = count_char s CHR ''}''"
    and cut: "s = t @ replicate k CHR ''}''" and k: "0 < k"
    and hd: "startswith t ''{''" and nb: "\<not> endswith t ''}''"
    and op: "opening \<in> {[], ''```json'' @ [CHR 10], ''```'' @ [CHR 10]}"
    and raw: "strip raw = opening @ t"
  shows "fix_truncation (strip raw) = strip raw @ replicate k CHR ''}'' \<and>
         repaired_text raw = s \<and>
         loads (repaired_text raw) = loads s"
proof -
  from hd have t: "t \<noteq> []" "hd t = CHR ''{''"
    using startswith_hd [of t "CHR ''{''" "[]"] by auto
  from t raw have u: "strip raw \<noteq> []" by simp
  from t raw have "last (strip raw) = last t" by simp
  with nb t have nbu: "\<not> endswith (strip raw) ''}''" by (simp add: endswith_brace)
  from op have co: "count_char opening CHR ''{'' = 0 \<and> count_char opening CHR ''}'' = 0"
    by (auto simp: count_char_def)
  from bal cut have "count_char t CHR ''{'' = count_char t CHR ''}'' + k"
    by (simp add: count_char_append count_char_replicate)
  with co raw have cnt: "count_char (strip raw) CHR ''{'' = count_char (strip raw) CHR ''}'' + k"
    by (simp add: count_char_append)
  from nbu cnt k have f: "fix_truncation (strip raw) = strip raw @ replicate k CHR ''}''"
    by (simp add: fix_truncation_def Let_def)
  from k have "s \<noteq> []" "hd s = CHR ''{''" "last s = CHR ''}''"
    using t cut by simp_all
  with op have "clean_json_response (opening @ s) = s" by (rule clean_opening_fence)
  with f raw cut have r: "repaired_text raw = s" by (simp add: repaired_text_def)
  from f r show ?thesis by simp
qed

theorem truncation_round_trip_witness:
  \<open>repaired_text ''{"a": "b", "c": [1,2'' = ''{"a": "b", "c": [1,2}'' \<and>
   repaired_text (''```json'' @ [CHR 10] @ ''{"a": {"b": 1'' @ [CHR 10]) = ''{"a": {"b": 1}}''\<close>
proof -
  have a: \<open>count_char ''{"a": "b", "c": [1,2}'' CHR ''{'' = count_char ''{"a": "b", "c": [1,2}'' CHR ''}''\<close>
    by code_simp
  have b: \<open>''{"a": "b", "c": [1,2}'' = ''{"a": "b", "c": [1,2'' @ replicate 1 CHR ''}''\<close> by simp
  have c: \<open>startswith ''{"a": "b", "c": [1,2'' ''{''\<close> by code_simp
  have d: \<open>\<not> endswith ''{"a": "b", "c": [1,2'' ''}''\<close> by code_simp
  have e: \<open>strip ''{"a": "b", "c": [1,2'' = [] @ ''{"a": "b", "c": [1,2''\<close> by code_simp
  have r1: \<open>repaired_text ''{"a": "b", "c": [1,2'' = ''{"a": "b", "c": [1,2}''\<close>
    using truncation_round_trip [OF a b _ c d _ e, of "\<lambda>s. Inr (JStr s)"] by simp
  have a2: \<open>count_char ''{"a": {"b": 1}}'' CHR ''{'' = count_char ''{"a": {"b": 1}}'' CHR ''}''\<close>
    by code_simp
  have b2: \<open>''{"a": {"b": 1}}'' = ''{"a": {"b": 1'' @ replicate 2 CHR ''}''\<close>
    by (simp add: eval_nat_numeral)
  have c2: \<open>startswith ''{"a": {"b": 1'' ''{''\<close> by code_simp
  have d2: \<open>\<not> endswith ''{"a": {"b": 1'' ''}''\<close> by code_simp
  have e2: \<open>strip (''```json'' @ [CHR 10] @ ''{"a": {"b": 1'' @ [CHR 10]) =
     (''```json'' @ [CHR 10]) @ ''{"a": {"b": 1''\<close> by code_simp
  have r2: \<open>repaired_text (''```json'' @ [CHR 10] @ ''{"a": {"b": 1'' @ [CHR 10]) = ''{"a": {"b": 1}}''\<close>
    using truncation_round_trip [OF a2 b2 _ c2 d2 _ e2, of "\<lambda>s. Inr (JStr s)"] by simp
  from r1 r2 show ?thesis by simp
qed

text \<open>
  The text of the claim has one opening brace, and one closing brace is appended, not
  two. A cut text that still ends with a closing brace is left as it is, and a brace
  inside a string value is counted.
\<close>

theorem heuristic_counterexample:
  \<open>count_char ''{"a": "b", "c": [1,2'' CHR ''{'' = 1 \<and>
   repaired_text ''{"a": "b", "c": [1,2'' = ''{"a": "b", "c": [1,2}'' \<and>
   repaired_text ''{"a": "b", "c": [1,2'' \<noteq> ''{"a": "b", "c": [1,2}}'' \<and>
   repaired_text ''{"a": {"b": 1}'' = ''{"a": {"b": 1}'' \<and>
   repaired_text ''{"a": "{"'' = ''{"a": "{"}}''\<close>
  by code_simp

text \<open>
  Claim C8. On a text that is trimmed, does not start with a fence marker and ends with
  a closing brace, the repair steps change nothing, so parsing the repaired text gives
  what parsing the text itself gives, whatever the parser.
\<close>

theorem repair_identity_on_object_text:
  fixes loads :: "string \<Rightarrow> exn + json"
  assumes "strip t = t" and "\<not> startswith t ''```''" and "endswith t ''}''"
  shows "loads (repaired_text t) = loads t"
proof -
  from assms(3) have l: "t \<noteq> [] \<and> last t = CHR ''}''" by (simp add: endswith_brace)
  have "\<not> endswith t ''```''"
  proof
    assume "endswith t ''```''"
    then have "endswith t (''``'' @ [CHR 0x60])" by simp
    then have "last t = CHR 0x60" by (rule endswith_last [THEN conjunct2])
    with l show False by simp
  qed
  moreover from assms(3) have "fix_truncation t = t" by (simp add: fix_truncation_def)
  ultimately have "repaired_text t = t"
    using assms(1,2) by (simp add: repaired_text_def clean_no_fence)
  then show ?thesis by simp
qed

theorem repair_identity_on_object_text_witness:
  \<open>strip ''{"category":"Steel"}'' = ''{"category":"Steel"}'' \<and>
   \<not> startswith ''{"category":"Steel"}'' ''```'' \<and>
   endswith ''{"category":"Steel"}'' ''}'' \<and>
   repaired_text ''{"category":"Steel"}'' = ''{"category":"Steel"}''\<close>
proof -
  have h1: \<open>strip ''{"category":"Steel"}'' = ''{"category":"Steel"}''\<close> by code_simp
  have h2: \<open>\<not> startswith ''{"category":"Steel"}'' ''```''\<close> by code_simp
  have h3: \<open>endswith ''{"category":"Steel"}'' ''}''\<close> by code_simp
  from repair_identity_on_object_text [OF h1 h2 h3, of "\<lambda>s. Inr (JStr s)"]
  have \<open>repaired_text ''{"category":"Steel"}'' = ''{"category":"Steel"}''\<close> by simp
  with h1 h2 h3 show ?thesis by simp
qed

section \<open>Properties of the backfill\<close>


lemma dict_get_set:
  "dict_get (dict_set d k v) k' = (if k' = k then Some v else dict_get d k')"
  by (induction d) (auto simp: dict_get_def)

lemma fix_category_other:
  "k \<noteq> ''category'' \<Longrightarrow> dict_get (fix_category d c) k = dict_get d k"
  by (simp add: fix_category_def dict_get_set split: option.splits)

lemma fix_risk_level_other:
  "k \<noteq> ''overall_risk_level'' \<Longrightarrow> dict_get (fix_risk_level d) k = dict_get d k"
  by (simp add: fix_risk_level_def dict_get_set split: option.splits)

lemma fix_list_field_other:
  "k \<noteq> f \<Longrightarrow> dict_get (fix_list_field f d) k = dict_get d k"
  by (simp add: fix_list_field_def dict_get_set Let_def split: option.splits json.splits)

lemma before_score_score:
  "dict_get (before_score data c) ''confidence_score'' = dict_get data ''confidence_score''"
  by (simp add: before_score_def fix_list_field_other fix_risk_level_other fix_category_other)



lemma validate_and_fix_response_dict:
  "validate_and_fix_response sf (JDict data) c = fix_confidence_score sf (before_score data c)"
  by (simp add: before_score_def)

lemma sanitize_raises_iff:
  "validate_and_fix_response sf (JDict data) c = Inl err \<longleftrightarrow>
     (\<exists>v. dict_get data ''confidence_score'' = Some v \<and> py_float sf v = Inl err)"
  unfolding validate_and_fix_response_dict
  by (auto simp: fix_confidence_score_def before_score_score split: option.splits sum.splits)

lemma sanitized_score:
  "validate_and_fix_response sf (JDict data) c =
     (case dict_get data ''confidence_score'' of
        None \<Rightarrow> Inr (dict_set (before_score data c) ''confidence_score'' (JFloat (Fin 0.85)))
      | Some v \<Rightarrow>
          (case py_float sf v of
             Inl e \<Rightarrow> Inl e
           | Inr score \<Rightarrow>
               Inr (dict_set (before_score data c) ''confidence_score''
                      (JFloat (py_max (Fin 0.70) (py_min (Fin 0.98) score))))))"
  unfolding validate_and_fix_response_dict
  by (simp add: fix_confidence_score_def before_score_score)

lemma clamp_range:
  "float_le (Fin 0.70) (py_max (Fin 0.70) (py_min (Fin 0.98) x)) \<and>
   float_le (py_max (Fin 0.70) (py_min (Fin 0.98) x)) (Fin 0.98)"
  by (cases x) (simp_all add: py_max_def py_min_def)

lemma clamp_inside:
  "float_le (Fin 0.70) x \<Longrightarrow> float_le x (Fin 0.98) \<Longrightarrow>
   py_max (Fin 0.70) (py_min (Fin 0.98) x) = x"
  by (cases x) (auto simp: py_max_def py_min_def)

lemma clamp_int:
  "py_max (Fin 0.70) (py_min (Fin 0.98) (Fin (of_int i))) = Fin (if 1 \<le> i then 0.98 else 0.70)"
proof (cases "1 \<le> i")
  case True
  then have "(1::real) \<le> of_int i" by simp
  then show ?thesis using True by (simp add: py_max_def py_min_def)
next
  case False
  then have "of_int i \<le> (0::real)" by simp
  then show ?thesis using False by (simp add: py_max_def py_min_def)
qed





text \<open>
  What the backfill does with the score in the other cases: 0.85 when the key is
  absent, the clamped value for a float (NaN and the infinities included) and for an
  int that \<open>float\<close> converts.
\<close>

lemma confidence_score_clamped:
  "(dict_get data ''confidence_score'' = None \<longrightarrow>
      (\<exists>fixed. validate_and_fix_response sf (JDict data) c = Inr fixed \<and>
         dict_get fixed ''confidence_score'' = Some (JFloat (Fin 0.85)))) \<and>
   (dict_get data ''confidence_score'' = Some (JFloat x) \<longrightarrow>
      (\<exists>fixed y. validate_and_fix_response sf (JDict data) c = Inr fixed \<and>
         dict_get fixed ''confidence_score'' = Some (JFloat y) \<and>
         float_le (Fin 0.70) y \<and> float_le y (Fin 0.98) \<and>
         (float_le (Fin 0.70) x \<and> float_le x (Fin 0.98) \<longrightarrow> y = x) \<and>
         (float_lt (Fin 0.98) x \<longrightarrow> y = Fin 0.98) \<and>
         (float_lt x (Fin 0.70) \<longrightarrow> y = Fin 0.70))) \<and>
   (dict_get data ''confidence_score'' = Some (JInt i) \<and> \<not> int_too_large i \<longrightarrow>
      (\<exists>fixed. validate_and_fix_response sf (JDict data) c = Inr fixed \<and>
         dict_get fixed ''confidence_score'' =
           Some (JFloat (Fin (if 1 \<le> i then 0.98 else 0.70)))))"
proof (intro conjI impI)
  assume "dict_get data ''confidence_score'' = None"
  then show "\<exists>fixed. validate_and_fix_response sf (JDict data) c = Inr fixed \<and>
         dict_get fixed ''confidence_score'' = Some (JFloat (Fin 0.85))"
    by (simp add: sanitized_score dict_get_set del: validate_and_fix_response.simps)
next
  assume a: "dict_get data ''confidence_score'' = Some (JFloat x)"
  let ?y = "py_max (Fin 0.70) (py_min (Fin 0.98) x)"
  let ?fixed = "dict_set (before_score data c) ''confidence_score'' (JFloat ?y)"
  from a have 1: "validate_and_fix_response sf (JDict data) c = Inr ?fixed"
    by (simp add: sanitized_score del: validate_and_fix_response.simps)
  have 2: "dict_get ?fixed ''confidence_score'' = Some (JFloat ?y)"
    by (simp add: dict_get_set)
  have 3: "float_le (Fin 0.70) ?y \<and> float_le ?y (Fin 0.98)" by (rule clamp_range)
  have 4: "float_le (Fin 0.70) x \<and> float_le x (Fin 0.98) \<longrightarrow> ?y = x"
    using clamp_inside [of x] by blast
  have 5: "float_lt (Fin 0.98) x \<longrightarrow> ?y = Fin 0.98"
    by (cases x) (simp_all add: py_max_def py_min_def)
  have 6: "float_lt x (Fin 0.70) \<longrightarrow> ?y = Fin 0.70"
    by (cases x) (simp_all add: py_max_def py_min_def)
  from 1 2 3 4 5 6
  show "\<exists>fixed y. validate_and_fix_response sf (JDict data) c = Inr fixed \<and>
         dict_get fixed ''confidence_score'' = Some (JFloat y) \<and>
         float_le (Fin 0.70) y \<and> float_le y (Fin 0.98) \<and>
         (float_le (Fin 0.70) x \<and> float_le x (Fin 0.98) \<longrightarrow> y = x) \<and>
         (float_lt (Fin 0.98) x \<longrightarrow> y = Fin 0.98) \<and>
         (float_lt x (Fin 0.70) \<longrightarrow> y = Fin 0.70)"
    by blast
next
  assume a: "dict_get data ''confidence_score'' = Some (JInt i) \<and> \<not> int_too_large i"
  let ?y = "py_max (Fin 0.70) (py_min (Fin 0.98) (Fin (of_int i)))"
  let ?fixed = "dict_set (before_score data c) ''confidence_score'' (JFloat ?y)"
  from a have 1: "validate_and_fix_response sf (JDict data) c = Inr ?fixed"
    by (simp add: sanitized_score del: validate_and_fix_response.simps)
  have 2: "dict_get ?fixed ''confidence_score'' = Some (JFloat ?y)"
    by (simp add: dict_get_set)
  have 3: "?y = Fin (if 1 \<le> i then 0.98 else 0.70)" by (rule clamp_int)
  from 1 2 show "\<exists>fixed. validate_and_fix_response sf (JDict data) c = Inr fixed \<and>
         dict_get fixed ''confidence_score'' =
           Some (JFloat (Fin (if 1 \<le> i then 0.98 else 0.70)))"
    unfolding 3 by blast
qed

text \<open>
  Claim C2. The backfill does raise on a single bad field: the value at
  \<open>confidence_score\<close> is passed to \<open>float\<close> without a test of its type (line 172),
  unlike the risk level and the list fields. On an object whose \<open>confidence_score\<close> is
  \<open>null\<close> the function raises TypeError.
\<close>

theorem sanitize_raises_on_null_score:
  "validate_and_fix_response sf (JDict [(''confidence_score'', JNull)]) c = Inl TypeError"
  by (simp add: sanitized_score dict_get_def del: validate_and_fix_response.simps)

text \<open>
  Claim C5. A \<open>confidence_score\<close> that is an int beyond the range of a double is a
  number that is not clamped: \<open>float\<close> raises OverflowError on it (line 172).
\<close>

theorem sanitize_raises_on_huge_int_score:
  "int_too_large (2 ^ 1024) \<and>
   validate_and_fix_response sf (JDict [(''confidence_score'', JInt (2 ^ 1024))]) c =
     Inl OverflowError"
proof -
  have "int_too_large (2 ^ 1024)" by (simp add: int_too_large_def)
  then show ?thesis
    by (simp add: sanitized_score dict_get_def del: validate_and_fix_response.simps)
qed

end
